theory Spec2Isabelle
  imports Complex_Main "HOL-Library.Sublist"
begin

section \<open>Strings and the regular expressions of the task analyser\<close>

text \<open>
  Task texts are modelled as \<^typ>\<open>string\<close>: a sequence of 8-bit characters, one per
  code unit of the JavaScript string (texts with code units above 255 are outside the
  model). The keywords and character classes of the source are all ASCII, and
  \<open>toLowerCase\<close> maps no character of this range other than \<open>A\<close>..\<open>Z\<close> onto an ASCII
  character, so lower-casing is written out on the ASCII letters; what it does to the
  other characters changes no result of the analyser.
\<close>

definition upper_letters :: string where
  "upper_letters = ''ABCDEFGHIJKLMNOPQRSTUVWXYZ''"

definition lower_letters :: string where
  "lower_letters = ''abcdefghijklmnopqrstuvwxyz''"

definition digit_chars :: string where
  "digit_chars = ''0123456789''"

definition is_upper :: "char \<Rightarrow> bool" where
  "is_upper c = (c \<in> set upper_letters)"

definition is_lower :: "char \<Rightarrow> bool" where
  "is_lower c = (c \<in> set lower_letters)"

definition is_digit :: "char \<Rightarrow> bool" where
  "is_digit c = (c \<in> set digit_chars)"

text \<open>The class \<open>\w\<close> of a JavaScript regular expression: \<open>[A-Za-z0-9_]\<close>.\<close>

definition is_word_char :: "char \<Rightarrow> bool" where
  "is_word_char c = (is_upper c \<or> is_lower c \<or> is_digit c \<or> c = CHR ''_'')"

definition toLowerChar :: "char \<Rightarrow> char" where
  "toLowerChar c = (case map_of (zip upper_letters lower_letters) c of Some d \<Rightarrow> d | None \<Rightarrow> c)"

definition toLowerCase :: "string \<Rightarrow> string" where
  "toLowerCase s = map toLowerChar s"

text \<open>\<open>starts_with w s\<close>: the text \<open>s\<close> begins with \<open>w\<close>.\<close>

fun starts_with :: "string \<Rightarrow> string \<Rightarrow> bool" where
  "starts_with [] s = True"
| "starts_with (a # w) [] = False"
| "starts_with (a # w) (c # s) = (a = c \<and> starts_with w s)"

text \<open>\<open>String.prototype.includes\<close>: \<open>w\<close> occurs in \<open>s\<close> at some position.\<close>

fun str_includes :: "string \<Rightarrow> string \<Rightarrow> bool" where
  "str_includes [] w = (w = [])"
| "str_includes (c # s) w = (starts_with w (c # s) \<or> str_includes s w)"

text \<open>
  The assertion \<open>\b\<close> holds between two neighbouring positions when exactly one of them
  holds a word character; the positions before the start and after the end of the text
  (\<open>None\<close>) count as non-word.
\<close>

definition is_word_opt :: "char option \<Rightarrow> bool" where
  "is_word_opt a = (case a of None \<Rightarrow> False | Some c \<Rightarrow> is_word_char c)"

definition word_boundary :: "char option \<Rightarrow> char option \<Rightarrow> bool" where
  "word_boundary a b = (is_word_opt a \<noteq> is_word_opt b)"

definition head_opt :: "string \<Rightarrow> char option" where
  "head_opt s = (case s of [] \<Rightarrow> None | c # _ \<Rightarrow> Some c)"

text \<open>
  \<open>alt_at a w s\<close>: the pattern \<open>\bw\b\<close> matches at the current position, where \<open>a\<close> is
  the character before it and \<open>s\<close> the text from it on. \<open>prev_char a xs\<close> is the
  character before the position reached by reading \<open>xs\<close> from there.
\<close>

definition prev_char :: "char option \<Rightarrow> string \<Rightarrow> char option" where
  "prev_char a xs = (if xs = [] then a else Some (last xs))"

definition alt_at :: "char option \<Rightarrow> string \<Rightarrow> string \<Rightarrow> bool" where
  "alt_at a w s =
     (word_boundary a (head_opt s) \<and> starts_with w s \<and>
      word_boundary (prev_char a w) (head_opt (drop (length w) s)))"

text \<open>
  The search of \<open>/\b(w1|...|wn)\b/\<close>: every position of the text is tried from left to
  right, and at each position every alternative (backtracking makes the order of the
  alternatives irrelevant to whether a match exists).
\<close>

fun re_search :: "string list \<Rightarrow> char option \<Rightarrow> string \<Rightarrow> bool" where
  "re_search ws a [] = list_ex (\<lambda>w. alt_at a w []) ws"
| "re_search ws a (c # s) = (list_ex (\<lambda>w. alt_at a w (c # s)) ws \<or> re_search ws (Some c) s)"

definition match_words :: "string list \<Rightarrow> string \<Rightarrow> bool" where
  "match_words ws s = re_search ws None s"

text \<open>
  What such a search decides, said without the search: the text splits into a part before,
  one of the words, and a part after, with a word boundary on each side of the word.
\<close>

definition split_match ::
  "string list \<Rightarrow> char option \<Rightarrow> string \<Rightarrow> string \<Rightarrow> string \<Rightarrow> string \<Rightarrow> bool" where
  "split_match ws a s pre w post \<longleftrightarrow>
     w \<in> set ws \<and> s = pre @ w @ post \<and>
     word_boundary (prev_char a pre) (head_opt (w @ post)) \<and>
     word_boundary (prev_char a (pre @ w)) (head_opt post)"

definition occurs_as_word :: "string list \<Rightarrow> string \<Rightarrow> bool" where
  "occurs_as_word ws s = (\<exists>pre w post. split_match ws None s pre w post)"

text \<open>
  The pattern \<open>/\b[A-Z][a-z]+(?:[A-Z][a-z]+)*\b/\<close>. \<open>entity_tail s\<close>: at least one
  \<open>[a-z]\<close> of the current group has been read and the rest of the pattern matches a
  prefix of \<open>s\<close>: either the match ends here (the closing \<open>\b\<close>), or the group reads one
  more \<open>[a-z]\<close>, or a new group \<open>[A-Z][a-z]\<close> starts.
\<close>

fun entity_tail :: "string \<Rightarrow> bool" where
  "entity_tail [] = True"
| "entity_tail (c # s) =
     (\<not> is_word_char c \<or> (is_lower c \<and> entity_tail s) \<or>
      (is_upper c \<and> (case s of [] \<Rightarrow> False | d # r \<Rightarrow> is_lower d \<and> entity_tail r)))"

definition entity_at :: "char option \<Rightarrow> string \<Rightarrow> bool" where
  "entity_at a s =
     (case s of
        c # d # r \<Rightarrow> word_boundary a (Some c) \<and> is_upper c \<and> is_lower d \<and> entity_tail r
      | _ \<Rightarrow> False)"

fun entity_search :: "char option \<Rightarrow> string \<Rightarrow> bool" where
  "entity_search a [] = False"
| "entity_search a (c # s) = (entity_at a (c # s) \<or> entity_search (Some c) s)"

definition match_entity :: "string \<Rightarrow> bool" where
  "match_entity s = entity_search None s"

section \<open>The task analyser\<close>

datatype complexity = LOW | MEDIUM | HIGH

datatype model = opus | sonnet | haiku

record task_analysis =
  complexity :: complexity
  domain :: string
  clarity_score :: rat
  risk_flags :: "string list"
  recommended_model :: model
  estimated_duration_minutes :: nat

definition complexityIndicators_high :: "string list" where
  "complexityIndicators_high =
     [''refactor'', ''architecture'', ''migrate'', ''complex'', ''multiple'', ''entire'', ''redesign'']"

definition complexityIndicators_medium :: "string list" where
  "complexityIndicators_medium =
     [''implement'', ''add'', ''create'', ''build'', ''update'', ''enhance'']"

definition complexityIndicators_low :: "string list" where
  "complexityIndicators_low = [''fix'', ''update'', ''change'', ''modify'', ''small'', ''simple'']"

definition complexity_of :: "string \<Rightarrow> complexity" where
  "complexity_of taskLower =
     (if list_ex (\<lambda>word. str_includes taskLower word) complexityIndicators_high then HIGH
      else if list_ex (\<lambda>word. str_includes taskLower word) complexityIndicators_low then LOW
      else MEDIUM)"

definition domainKeywords :: "(string \<times> string list) list" where
  "domainKeywords =
     [(''Security/Auth'', [''auth'', ''security'', ''jwt'', ''oauth'', ''password'', ''encryption'', ''crypto'']),
      (''API/Backend'', [''api'', ''endpoint'', ''backend'', ''server'', ''database'', ''query'']),
      (''Frontend/UI'', [''ui'', ''frontend'', ''component'', ''react'', ''vue'', ''angular'', ''css'']),
      (''DevOps/Infrastructure'', [''deploy'', ''docker'', ''kubernetes'', ''ci/cd'', ''pipeline'', ''infrastructure'']),
      (''Data/Analytics'', [''data'', ''analytics'', ''chart'', ''graph'', ''visualization'', ''report'']),
      (''Testing'', [''test'', ''testing'', ''unit test'', ''integration test'', ''e2e''])]"

text \<open>The loop over \<open>Object.entries(domainKeywords)\<close> with its \<open>break\<close> at the first match.\<close>

fun domain_loop :: "(string \<times> string list) list \<Rightarrow> string \<Rightarrow> string" where
  "domain_loop [] taskLower = ''General''"
| "domain_loop ((domainName, keywords) # rest) taskLower =
     (if list_ex (\<lambda>keyword. str_includes taskLower keyword) keywords then domainName
      else domain_loop rest taskLower)"

definition action_verbs :: "string list" where
  "action_verbs = [''add'', ''create'', ''implement'', ''fix'', ''remove'', ''update'']"

definition vague_terms :: "string list" where
  "vague_terms = [''improve'', ''enhance'', ''optimize'', ''better'']"

text \<open>
  The clarity score is a JavaScript number: an IEEE 754 binary64 value. Such a value is
  modelled by the rational it denotes, and every arithmetic step rounds its exact result
  to the nearest binary64 value, ties to the even significand. \<open>binade x\<close> is the
  exponent \<open>e\<close> with \<open>2^e \<le> x < 2^(e+1)\<close> of a positive \<open>x\<close>; below \<open>2^-1022\<close> the
  spacing stays that of the subnormal numbers. Overflow to infinity is not modelled (no
  value of the analyser exceeds 1).
\<close>

function bit_length :: "int \<Rightarrow> nat" where
  "bit_length n = (if n \<le> 0 then 0 else Suc (bit_length (n div 2)))"
  by pat_completeness auto
termination
  by (relation "measure nat") auto

definition pow2 :: "int \<Rightarrow> rat" where
  "pow2 e = (if 0 \<le> e then 2 ^ nat e else 1 / 2 ^ nat (- e))"

definition round_half_even :: "rat \<Rightarrow> int" where
  "round_half_even q =
     (let f = \<lfloor>q\<rfloor>; d = q - of_int f in
      if d < 1 / 2 then f else if 1 / 2 < d then f + 1 else if even f then f else f + 1)"

definition binade :: "rat \<Rightarrow> int" where
  "binade x =
     (case quotient_of x of
        (p, q) \<Rightarrow>
          (let e = int (bit_length p) - int (bit_length q)
           in if pow2 e \<le> x then e else e - 1))"

definition binary64 :: "rat \<Rightarrow> rat" where
  "binary64 x =
     (if x = 0 then 0
      else (let a = \<bar>x\<bar>; e = max (binade a) (- 1022); ulp = pow2 (e - 52)
            in sgn x * of_int (round_half_even (a / ulp)) * ulp))"

text \<open>The operators \<open>+\<close> and \<open>-\<close> on numbers.\<close>

definition js_add :: "rat \<Rightarrow> rat \<Rightarrow> rat" where
  "js_add a b = binary64 (a + b)"

definition js_sub :: "rat \<Rightarrow> rat \<Rightarrow> rat" where
  "js_sub a b = binary64 (a - b)"

text \<open>
  The clarity score, with the source's literals \<open>0.5\<close>, \<open>0.2\<close> and \<open>0.1\<close> as the binary64
  values they are read as; \<open>Math.max\<close> and \<open>Math.min\<close> are exact.
\<close>

definition clarity_of :: "string \<Rightarrow> rat" where
  "clarity_of taskLower =
     (let s0 = binary64 (5 / 10);
          s1 = (if match_words action_verbs taskLower then js_add s0 (binary64 (2 / 10)) else s0);
          s2 = (if match_entity taskLower then js_add s1 (binary64 (1 / 10)) else s1);
          s3 = (if match_words vague_terms taskLower then js_sub s2 (binary64 (1 / 10)) else s2);
          s4 = (if str_includes taskLower ''using'' \<or> str_includes taskLower ''with''
                then js_add s3 (binary64 (1 / 10)) else s3)
      in max 0 (min 1 s4))"

definition security_words :: "string list" where
  "security_words = [''auth'', ''password'', ''jwt'', ''oauth'', ''crypto'', ''encryption'', ''security'']"

definition privacy_words :: "string list" where
  "privacy_words = [''gdpr'', ''ccpa'', ''privacy'', ''pii'', ''personal data'']"

definition compliance_words :: "string list" where
  "compliance_words = [''license'', ''compliance'', ''legal'']"

definition policy_words :: "string list" where
  "policy_words = [''user data'', ''sensitive'', ''confidential'']"

text \<open>The four \<open>if (...match(...)) risk_flags.push(...)\<close> statements, in their order.\<close>

definition risk_flags_of :: "string \<Rightarrow> string list" where
  "risk_flags_of taskLower =
     (let f0 = [];
          f1 = (if match_words security_words taskLower then f0 @ [''security''] else f0);
          f2 = (if match_words privacy_words taskLower then f1 @ [''privacy''] else f1);
          f3 = (if match_words compliance_words taskLower then f2 @ [''compliance''] else f2);
          f4 = (if match_words policy_words taskLower then f3 @ [''policy''] else f3)
      in f4)"

definition recommend :: "complexity \<Rightarrow> string list \<Rightarrow> model" where
  "recommend c flags =
     (if c = HIGH \<or> length flags > 0 then opus
      else if c = MEDIUM then sonnet
      else haiku)"

definition baseTime :: "complexity \<Rightarrow> nat" where
  "baseTime c = (case c of LOW \<Rightarrow> 3 | MEDIUM \<Rightarrow> 5 | HIGH \<Rightarrow> 8)"

definition analyzeTask :: "string \<Rightarrow> task_analysis" where
  "analyzeTask task =
     (let taskLower = toLowerCase task;
          c = complexity_of taskLower;
          d = domain_loop domainKeywords taskLower;
          cs = clarity_of taskLower;
          flags = risk_flags_of taskLower;
          m = recommend c flags;
          t = (if length flags > 0 then baseTime c + 2 else baseTime c)
      in \<lparr>complexity = c, domain = d, clarity_score = cs, risk_flags = flags,
          recommended_model = m, estimated_duration_minutes = t\<rparr>)"

text \<open>
  The tool handler \<open>analyzeTaskTool\<close>. Its result carries \<open>isError\<close> (absent in the
  source means false) and \<open>_meta\<close>; the rendered \<open>content\<close> text is left out. Nothing in the
  \<open>try\<close> block throws on a string, so the \<open>catch\<close> branch is never taken. The request
  handler of the server passes the arguments on as they come (\<open>tool(args as any)\<close>); the
  \<open>minLength\<close> of the tool's advertised \<open>inputSchema\<close> is read by neither.
\<close>

record analyze_result =
  analyze_isError :: bool
  analyze_meta :: "task_analysis option"

definition analyze_task_minLength :: nat where
  "analyze_task_minLength = 10"

definition analyzeTaskTool :: "string \<Rightarrow> analyze_result" where
  "analyzeTaskTool task =
     (let analysis = analyzeTask task
      in \<lparr>analyze_isError = False, analyze_meta = Some analysis\<rparr>)"

section \<open>Trace identifiers and the workflow tool\<close>

text \<open>
  \<open>isValidTraceId\<close> tests
  \<open>/^[0-9a-f]{8}-[0-9a-f]{4}-4[0-9a-f]{3}-[89ab][0-9a-f]{3}-[0-9a-f]{12}$/i\<close>.
  The pattern reads one character per item, so it is a list of items, matched item by
  item against the whole text (the anchors); the flag \<open>i\<close> admits both cases.
\<close>

datatype uuid_item = Hex | Dash | Four | Variant

definition is_hex :: "char \<Rightarrow> bool" where
  "is_hex c = (c \<in> set ''0123456789abcdefABCDEF'')"

definition item_matches :: "uuid_item \<Rightarrow> char \<Rightarrow> bool" where
  "item_matches it c =
     (case it of
        Hex \<Rightarrow> is_hex c
      | Dash \<Rightarrow> c = CHR ''-''
      | Four \<Rightarrow> c = CHR ''4''
      | Variant \<Rightarrow> c \<in> set ''89abAB'')"

definition uuidV4Regex :: "uuid_item list" where
  "uuidV4Regex =
     replicate 8 Hex @ [Dash] @ replicate 4 Hex @ [Dash, Four] @ replicate 3 Hex @
     [Dash, Variant] @ replicate 3 Hex @ [Dash] @ replicate 12 Hex"

definition isValidTraceId :: "string \<Rightarrow> bool" where
  "isValidTraceId traceId = list_all2 item_matches uuidV4Regex traceId"

text \<open>
  The UUID version 4 format in words: five groups of 8, 4, 4, 4 and 12 hexadecimal digits
  of either case, separated by hyphens, the third group starting with \<open>4\<close> and the fourth
  with one of \<open>8\<close>, \<open>9\<close>, \<open>a\<close>, \<open>b\<close>.
\<close>

definition uuid_v4_format :: "string \<Rightarrow> bool" where
  "uuid_v4_format t =
     (\<exists>a b c v d e.
        t = a @ ''-'' @ b @ ''-4'' @ c @ ''-'' @ [v] @ d @ ''-'' @ e \<and>
        length a = 8 \<and> length b = 4 \<and> length c = 3 \<and> length d = 3 \<and> length e = 12 \<and>
        list_all is_hex (a @ b @ c @ d @ e) \<and> v \<in> set ''89abAB'')"

record execute_config =
  sme_enabled :: "bool option"
  security_sme :: "bool option"
  logging :: "bool option"
  trace_id :: "string option"

record execute_args =
  task :: string
  task_context :: "string option"
  config :: "execute_config option"

record execute_result =
  execute_isError :: bool
  meta_trace_id :: string
  meta_feedback_url :: string

definition supplied_trace_id :: "execute_args \<Rightarrow> string option" where
  "supplied_trace_id args = (case config args of None \<Rightarrow> None | Some c \<Rightarrow> trace_id c)"

text \<open>
  \<open>executeOriTool\<close>. The value \<open>randomUUID()\<close> would return at this call is the parameter
  \<open>fresh\<close>; the generator is only called when the supplied identifier is not used. A
  supplied identifier counts when it is truthy (a non-empty string) and valid. Building
  the instruction text throws on no argument record, so the tool returns from its
  \<open>try\<close> block; the text and the measured duration are left out of the result.
\<close>

definition choose_trace_id :: "string \<Rightarrow> execute_args \<Rightarrow> string" where
  "choose_trace_id fresh args =
     (case config args of
        None \<Rightarrow> fresh
      | Some c \<Rightarrow>
          (case trace_id c of
             None \<Rightarrow> fresh
           | Some t \<Rightarrow> if t \<noteq> [] \<and> isValidTraceId t then t else fresh))"

definition executeOriTool :: "string \<Rightarrow> execute_args \<Rightarrow> execute_result" where
  "executeOriTool fresh args =
     (let traceId = choose_trace_id fresh args;
          feedbackUrl =
            ''https://github.com/grandinh/mcp-server-ori/issues/new?template=workflow-feedback.yml&trace_id=''
            @ traceId
      in \<lparr>execute_isError = False, meta_trace_id = traceId, meta_feedback_url = feedbackUrl\<rparr>)"

section \<open>The SME quality gate of the workflow definition\<close>

record sme_finding =
  severity :: string
  category :: string
  finding :: string
  location :: string
  recommendation :: string

record sme_review =
  executed :: bool
  overall_risk :: string
  findings :: "sme_finding list"
  review_recommendation :: string

text \<open>\<open>sme_reviews\<close> is a dictionary read in insertion order: an association list.\<close>

type_synonym sme_reviews = "(string \<times> sme_review) list"

type_synonym tagged_findings = "(string \<times> sme_finding) list"

text \<open>
  The two nested loops of the decision matrix, threading the lists
  \<open>critical_findings\<close> and \<open>high_findings\<close>.
\<close>

fun findings_loop ::
  "string \<Rightarrow> sme_finding list \<Rightarrow> tagged_findings \<times> tagged_findings \<Rightarrow>
   tagged_findings \<times> tagged_findings" where
  "findings_loop sme_name [] (critical_findings, high_findings) =
     (critical_findings, high_findings)"
| "findings_loop sme_name (f # fs) (critical_findings, high_findings) =
     (if severity f = ''Critical''
        then findings_loop sme_name fs (critical_findings @ [(sme_name, f)], high_findings)
      else if severity f = ''High''
        then findings_loop sme_name fs (critical_findings, high_findings @ [(sme_name, f)])
      else findings_loop sme_name fs (critical_findings, high_findings))"

fun reviews_loop ::
  "sme_reviews \<Rightarrow> tagged_findings \<times> tagged_findings \<Rightarrow> tagged_findings \<times> tagged_findings" where
  "reviews_loop [] acc = acc"
| "reviews_loop ((sme_name, review) # rest) acc =
     reviews_loop rest (findings_loop sme_name (findings review) acc)"

datatype gate_decision = Pause tagged_findings tagged_findings | Proceed

definition decide :: "sme_reviews \<Rightarrow> gate_decision" where
  "decide reviews =
     (case reviews_loop reviews ([], []) of
        (critical_findings, high_findings) \<Rightarrow>
          if critical_findings \<noteq> [] \<or> high_findings \<noteq> []
          then Pause critical_findings high_findings
          else Proceed)"

text \<open>What the workflow does next, given the answer of \<open>ask_user\<close> at a pause.\<close>

datatype gate_outcome =
    LOOP_BACK_TO_PHASE_2
  | PROCEED_TO_PHASE_3
  | PROCEED_WITH_RISK_ACCEPTED tagged_findings tagged_findings
  | ABORT_WORKFLOW

definition decision_matrix :: "sme_reviews \<Rightarrow> string \<Rightarrow> gate_outcome" where
  "decision_matrix reviews user_choice =
     (case decide reviews of
        Pause critical_findings high_findings \<Rightarrow>
          if user_choice = ''fix'' then LOOP_BACK_TO_PHASE_2
          else if user_choice = ''proceed''
            then PROCEED_WITH_RISK_ACCEPTED critical_findings high_findings
          else ABORT_WORKFLOW
      | Proceed \<Rightarrow> PROCEED_TO_PHASE_3)"

text \<open>
  The findings of all reviews in reading order, each with the name of its SME: what the
  gate's two lists are compared with.
\<close>

definition all_tagged :: "sme_reviews \<Rightarrow> tagged_findings" where
  "all_tagged reviews = concat (map (\<lambda>(sme_name, review). map (Pair sme_name) (findings review)) reviews)"

section \<open>The phase record of the handoff packet\<close>

text \<open>Phases are numbered \<open>0, 1, 2, 2.5, 3, 4\<close> in the workflow definition.\<close>

record phase_info =
  current :: rat
  next_phase :: "rat option"
  completed :: "rat list"
  remaining :: "rat list"

record user_request =
  original :: string
  parsed_intent :: string
  request_domain :: string
  request_clarity_score :: rat
  request_risk_flags :: "string list"

record packet_metadata =
  started_at :: string
  models_used :: "string \<rightharpoonup> string"
  phase_durations :: "string \<rightharpoonup> nat"

record handoff_packet =
  schemaVersion :: string
  packet_trace_id :: string
  workflow_id :: string
  phase :: phase_info
  user_request :: user_request
  constraints :: "string list"
  acceptance_criteria :: "string list"
  safety_invariants :: "string list"
  sme_reviews :: sme_reviews
  metadata :: packet_metadata


text \<open>
  The packet the workflow initialises before Phase 0, from the generated trace
  identifier, the user's request and the time of the start.
\<close>

definition initialize_packet :: "string \<Rightarrow> string \<Rightarrow> string \<Rightarrow> handoff_packet" where
  "initialize_packet generated_uuid request timestamp =
     \<lparr>schemaVersion = ''1.0.0'', packet_trace_id = generated_uuid, workflow_id = ''/ori'',
      phase = \<lparr>current = 0, next_phase = Some 1, completed = [], remaining = [1, 2, 3, 4]\<rparr>,
      user_request = \<lparr>original = request, parsed_intent = [], request_domain = [],
                      request_clarity_score = 0, request_risk_flags = []\<rparr>,
      constraints = [], acceptance_criteria = [], safety_invariants = [],
      sme_reviews = [],
      metadata = \<lparr>started_at = timestamp, models_used = [''phase_0'' \<mapsto> ''claude-opus-4''],
                  phase_durations = Map.empty\<rparr>\<rparr>"

text \<open>
  Step 6 of Phase 2.5, "Update Handoff Packet": the existing fields are kept, and the
  phase record, the reviews and the duration of the phase (in seconds) are written.
\<close>

definition update_packet_phase_2_5 :: "sme_reviews \<Rightarrow> nat \<Rightarrow> handoff_packet \<Rightarrow> handoff_packet" where
  "update_packet_phase_2_5 reviews seconds packet =
     packet\<lparr>phase := \<lparr>current = 5 / 2, next_phase = Some 3, completed = [0, 1, 2],
                     remaining = [3, 4]\<rparr>,
            sme_reviews := reviews,
            metadata := (metadata packet)\<lparr>phase_durations :=
              (phase_durations (metadata packet))(''phase_2.5'' \<mapsto> seconds)\<rparr>\<rparr>"

text \<open>The sample packet of the agents README: the phase record while Phase 1 runs.\<close>

definition readme_phase_1 :: phase_info where
  "readme_phase_1 = \<lparr>current = 1, next_phase = Some 2, completed = [0], remaining = [2, 3, 4]\<rparr>"

text \<open>
  Modelled from the spec: the step from one phase to the next. The repository has no
  code for it: the workflow is carried out by following the workflow definition, which
  writes the phase record only at initialisation and in the Phase 2.5 update. The spec
  gives the linear chain of the phases with the optional gate between Phase 2 and
  Phase 3, and the packets the repository shows fix what a step does: the current phase
  joins the completed ones, the next phase becomes the current one and leaves the
  remaining ones, and the first of those left is the new next phase. There is no step
  from the last phase (\<open>None\<close>).
\<close>

definition advance_phase :: "phase_info \<Rightarrow> phase_info option" where
  "advance_phase ph =
     (case next_phase ph of
        None \<Rightarrow> None
      | Some n \<Rightarrow>
          (let rest = filter (\<lambda>p. p \<noteq> n) (remaining ph)
           in Some \<lparr>current = n,
                    next_phase = (case rest of [] \<Rightarrow> None | m # _ \<Rightarrow> Some m),
                    completed = completed ph @ [current ph],
                    remaining = rest\<rparr>))"







section \<open>The configuration validator\<close>

text \<open>
  A deserialised JSON document. An object is the list of its members in the order the
  object enumerates them; a key is looked up with \<^const>\<open>map_of\<close>.
\<close>

datatype json =
    JNull
  | JBool bool
  | JNum rat
  | JStr string
  | JArr "json list"
  | JObj "(string \<times> json) list"

text \<open>
  The schema combinators of the validation library that \<open>OriConfigSchema\<close> is built
  from: \<open>z.string()\<close>, \<open>z.string().regex(r)\<close>, \<open>z.boolean()\<close>, \<open>z.number()\<close>,
  \<open>z.array(s)\<close>, \<open>z.record(s)\<close>, \<open>z.object({...})\<close> and \<open>s.optional()\<close>.
\<close>

datatype zod =
    ZString
  | ZRegex "string \<Rightarrow> bool"
  | ZBoolean
  | ZNumber
  | ZArray zod
  | ZRecord zod
  | ZObject "(string \<times> zod) list"
  | ZOptional zod

datatype path_elem = Key string | Index nat

type_synonym zod_issue = "path_elem list \<times> string"

fun parsed_type :: "json \<Rightarrow> string" where
  "parsed_type JNull = ''null''"
| "parsed_type (JBool b) = ''boolean''"
| "parsed_type (JNum n) = ''number''"
| "parsed_type (JStr s) = ''string''"
| "parsed_type (JArr xs) = ''array''"
| "parsed_type (JObj kvs) = ''object''"

text \<open>
  The issue for a value of the wrong type; \<open>None\<close> is \<open>undefined\<close>, the value of a key the
  object does not have.
\<close>

definition invalid_type :: "path_elem list \<Rightarrow> string \<Rightarrow> json option \<Rightarrow> zod_issue list" where
  "invalid_type p expected v =
     [(p, case v of None \<Rightarrow> ''Required''
               | Some j \<Rightarrow> ''Expected '' @ expected @ '', received '' @ parsed_type j)]"

text \<open>
  The issues the library collects for a value at path \<open>p\<close>. No branch converts a value
  of one type into another: a value of the wrong type is an issue. An object schema reads
  the keys of its shape in order and ignores every other key of the value.
\<close>

fun zod_issues :: "zod \<Rightarrow> path_elem list \<Rightarrow> json option \<Rightarrow> zod_issue list"
  and shape_issues :: "(string \<times> zod) list \<Rightarrow> path_elem list \<Rightarrow> (string \<times> json) list \<Rightarrow> zod_issue list"
where
  "zod_issues ZString p v =
     (case v of Some (JStr s) \<Rightarrow> [] | _ \<Rightarrow> invalid_type p ''string'' v)"
| "zod_issues (ZRegex r) p v =
     (case v of Some (JStr s) \<Rightarrow> (if r s then [] else [(p, ''Invalid'')])
              | _ \<Rightarrow> invalid_type p ''string'' v)"
| "zod_issues ZBoolean p v =
     (case v of Some (JBool b) \<Rightarrow> [] | _ \<Rightarrow> invalid_type p ''boolean'' v)"
| "zod_issues ZNumber p v =
     (case v of Some (JNum n) \<Rightarrow> [] | _ \<Rightarrow> invalid_type p ''number'' v)"
| "zod_issues (ZArray e) p v =
     (case v of
        Some (JArr xs) \<Rightarrow>
          concat (map (\<lambda>(i, x). zod_issues e (p @ [Index i]) (Some x)) (enumerate 0 xs))
      | _ \<Rightarrow> invalid_type p ''array'' v)"
| "zod_issues (ZRecord e) p v =
     (case v of
        Some (JObj kvs) \<Rightarrow> concat (map (\<lambda>(k, x). zod_issues e (p @ [Key k]) (Some x)) kvs)
      | _ \<Rightarrow> invalid_type p ''object'' v)"
| "zod_issues (ZObject shape) p v =
     (case v of
        Some (JObj kvs) \<Rightarrow> shape_issues shape p kvs
      | _ \<Rightarrow> invalid_type p ''object'' v)"
| "zod_issues (ZOptional e) p v =
     (case v of None \<Rightarrow> [] | Some x \<Rightarrow> zod_issues e p v)"
| "shape_issues [] p kvs = []"
| "shape_issues ((k, e) # rest) p kvs =
     zod_issues e (p @ [Key k]) (map_of kvs k) @ shape_issues rest p kvs"

text \<open>The pattern \<open>/^\d+\.\d+\.\d+$/\<close> of the \<open>version\<close> field.\<close>

definition version_regex :: "string \<Rightarrow> bool" where
  "version_regex s =
     (let major = takeWhile is_digit s; r1 = dropWhile is_digit s in
      major \<noteq> [] \<and>
      (case r1 of
         [] \<Rightarrow> False
       | c1 # s2 \<Rightarrow>
           c1 = CHR ''.'' \<and>
           (let minor = takeWhile is_digit s2; r2 = dropWhile is_digit s2 in
            minor \<noteq> [] \<and>
            (case r2 of
               [] \<Rightarrow> False
             | c2 # s3 \<Rightarrow> c2 = CHR ''.'' \<and> s3 \<noteq> [] \<and> list_all is_digit s3))))"

definition OriConfigSchema :: zod where
  "OriConfigSchema =
     ZObject
       [(''version'', ZRegex version_regex),
        (''sme_agents'', ZObject
           [(''enabled'', ZBoolean),
            (''security'', ZOptional (ZObject
               [(''enabled'', ZBoolean),
                (''auto_invoke_on_keywords'', ZOptional (ZArray ZString)),
                (''auto_invoke_on_risk_flags'', ZOptional (ZArray ZString)),
                (''block_on_critical'', ZOptional ZBoolean)])),
            (''compliance'', ZOptional (ZObject
               [(''enabled'', ZBoolean),
                (''auto_invoke_on_keywords'', ZOptional (ZArray ZString)),
                (''auto_invoke_on_risk_flags'', ZOptional (ZArray ZString))])),
            (''code_quality'', ZOptional (ZObject
               [(''enabled'', ZBoolean),
                (''complexity_threshold'', ZOptional ZNumber)])),
            (''performance'', ZOptional (ZObject
               [(''enabled'', ZBoolean),
                (''auto_invoke_on_keywords'', ZOptional (ZArray ZString))]))]),
        (''safety_hooks'', ZOptional (ZObject
           [(''enabled'', ZBoolean),
            (''pre_phase'', ZOptional (ZRecord (ZArray ZString))),
            (''post_phase'', ZOptional (ZRecord (ZArray ZString))),
            (''emergency'', ZOptional (ZArray ZString))])),
        (''logging'', ZOptional (ZObject
           [(''enabled'', ZBoolean),
            (''log_directory'', ZOptional ZString),
            (''retention_days'', ZOptional ZNumber),
            (''log_handoff_packets'', ZOptional ZBoolean),
            (''log_sme_reviews'', ZOptional ZBoolean)]))]"

text \<open>Reading a member of a value, as \<open>x?.k\<close> does: \<open>None\<close> where there is none.\<close>

definition member :: "json option \<Rightarrow> string \<Rightarrow> json option" where
  "member v k = (case v of Some (JObj kvs) \<Rightarrow> map_of kvs k | _ \<Rightarrow> None)"

text \<open>Truthiness of a value that may be absent.\<close>

fun truthy :: "json option \<Rightarrow> bool" where
  "truthy None = False"
| "truthy (Some JNull) = False"
| "truthy (Some (JBool b)) = b"
| "truthy (Some (JNum n)) = (n \<noteq> 0)"
| "truthy (Some (JStr s)) = (s \<noteq> [])"
| "truthy (Some (JArr xs)) = True"
| "truthy (Some (JObj kvs)) = True"

fun nat_digits :: "nat \<Rightarrow> string" where
  "nat_digits n =
     (if n < 10 then [digit_chars ! n] else nat_digits (n div 10) @ [digit_chars ! (n mod 10)])"

fun path_elem_text :: "path_elem \<Rightarrow> string" where
  "path_elem_text (Key k) = k"
| "path_elem_text (Index i) = nat_digits i"

text \<open>\<open>Array.prototype.join(".")\<close> on the elements of a path.\<close>

fun join_dot :: "string list \<Rightarrow> string" where
  "join_dot [] = []"
| "join_dot [x] = x"
| "join_dot (x # y # ys) = x @ ''.'' @ join_dot (y # ys)"

record config_error =
  path :: string
  message :: string

datatype config_meta = MetaValid "string list" | MetaInvalid "config_error list"

record config_result =
  config_isError :: bool
  config_meta :: "config_meta option"

definition valid :: "config_meta \<Rightarrow> bool" where
  "valid m = (case m of MetaValid ws \<Rightarrow> True | MetaInvalid es \<Rightarrow> False)"

text \<open>
  The warnings of the success branch. \<open>safeParse\<close> has succeeded, and its \<open>data\<close> holds
  the members the schema names with the values the document has; they are read from the
  document.
\<close>

definition config_warnings :: "json \<Rightarrow> string list" where
  "config_warnings doc =
     (let data = Some doc;
          sme = member data ''sme_agents'';
          w0 = [];
          w1 = (if truthy (member sme ''enabled'') then
                  (let anySmeEnabled =
                         truthy (member (member sme ''security'') ''enabled'') \<or>
                         truthy (member (member sme ''compliance'') ''enabled'') \<or>
                         truthy (member (member sme ''code_quality'') ''enabled'') \<or>
                         truthy (member (member sme ''performance'') ''enabled'')
                   in if \<not> anySmeEnabled
                      then w0 @ [''sme_agents.enabled is true but no specific SME agents are enabled'']
                      else w0)
                else w0);
          lg = member data ''logging'';
          w2 = (if truthy (member lg ''enabled'') \<and> \<not> truthy (member lg ''log_directory'')
                then w1 @ [''Logging enabled but log_directory not specified (will use default)'']
                else w1)
      in w2)"

text \<open>The tool from \<open>OriConfigSchema.safeParse(configJson)\<close> on.\<close>

definition validate_document :: "json \<Rightarrow> config_result" where
  "validate_document configJson =
     (let issues = zod_issues OriConfigSchema [] (Some configJson) in
      if issues = [] then
        \<lparr>config_isError = False, config_meta = Some (MetaValid (config_warnings configJson))\<rparr>
      else
        \<lparr>config_isError = True,
         config_meta = Some (MetaInvalid
           (map (\<lambda>(p, msg). \<lparr>path = join_dot (map path_elem_text p), message = msg\<rparr>) issues))\<rparr>)"

record validate_args =
  config_path :: "string option"
  config_content :: "string option"

text \<open>
  The whole tool. Reading the file and parsing the text are the environment's:
  \<open>readFile\<close> and \<open>JSON_parse\<close> give \<open>None\<close> where the source's calls throw.
\<close>

definition truthy_string :: "string option \<Rightarrow> string option" where
  "truthy_string x = (case x of None \<Rightarrow> None | Some s \<Rightarrow> if s \<noteq> [] then Some s else None)"

definition parse_and_validate :: "(string \<Rightarrow> json option) \<Rightarrow> string \<Rightarrow> config_result" where
  "parse_and_validate JSON_parse configContent =
     (case JSON_parse configContent of
        None \<Rightarrow> \<lparr>config_isError = True, config_meta = None\<rparr>
      | Some configJson \<Rightarrow> validate_document configJson)"

definition validateConfigTool ::
  "(string \<Rightarrow> string option) \<Rightarrow> (string \<Rightarrow> json option) \<Rightarrow> validate_args \<Rightarrow> config_result" where
  "validateConfigTool readFile JSON_parse args =
     (case truthy_string (config_path args) of
        Some p \<Rightarrow>
          (case readFile p of
             None \<Rightarrow> \<lparr>config_isError = True, config_meta = None\<rparr>
           | Some configContent \<Rightarrow> parse_and_validate JSON_parse configContent)
      | None \<Rightarrow>
          (case truthy_string (config_content args) of
             Some configContent \<Rightarrow> parse_and_validate JSON_parse configContent
           | None \<Rightarrow> \<lparr>config_isError = True, config_meta = None\<rparr>))"

text \<open>
  What the schema says of a value, as a predicate: the value has the type the schema
  names, every required member is there, and every member the schema names conforms.
\<close>

fun conforms :: "zod \<Rightarrow> json option \<Rightarrow> bool"
  and shape_conforms :: "(string \<times> zod) list \<Rightarrow> (string \<times> json) list \<Rightarrow> bool"
where
  "conforms ZString v = (case v of Some (JStr s) \<Rightarrow> True | _ \<Rightarrow> False)"
| "conforms (ZRegex r) v = (case v of Some (JStr s) \<Rightarrow> r s | _ \<Rightarrow> False)"
| "conforms ZBoolean v = (case v of Some (JBool b) \<Rightarrow> True | _ \<Rightarrow> False)"
| "conforms ZNumber v = (case v of Some (JNum n) \<Rightarrow> True | _ \<Rightarrow> False)"
| "conforms (ZArray e) v =
     (case v of Some (JArr xs) \<Rightarrow> list_all (\<lambda>x. conforms e (Some x)) xs | _ \<Rightarrow> False)"
| "conforms (ZRecord e) v =
     (case v of Some (JObj kvs) \<Rightarrow> list_all (\<lambda>(k, x). conforms e (Some x)) kvs | _ \<Rightarrow> False)"
| "conforms (ZObject shape) v =
     (case v of Some (JObj kvs) \<Rightarrow> shape_conforms shape kvs | _ \<Rightarrow> False)"
| "conforms (ZOptional e) v = (case v of None \<Rightarrow> True | Some x \<Rightarrow> conforms e v)"
| "shape_conforms [] kvs = True"
| "shape_conforms ((k, e) # rest) kvs = (conforms e (map_of kvs k) \<and> shape_conforms rest kvs)"

section \<open>Example inputs\<close>

text \<open>Two reviews in the shape of the workflow definition's example.\<close>

definition example_reviews :: sme_reviews where
  "example_reviews =
     [(''security'',
       \<lparr>executed = True, overall_risk = ''High'',
        findings =
          [\<lparr>severity = ''High'', category = ''A07'', finding = ''No JWT token expiration'',
            location = ''src/middleware/auth.js:12'', recommendation = ''Set expiresIn''\<rparr>,
           \<lparr>severity = ''Medium'', category = ''A05'', finding = ''Verbose errors'',
            location = ''src/app.js:40'', recommendation = ''Hide stack traces''\<rparr>,
           \<lparr>severity = ''Critical'', category = ''A02'', finding = ''JWT secret hardcoded in source'',
            location = ''src/middleware/auth.js:5'', recommendation = ''Move to environment variable''\<rparr>],
        review_recommendation = ''Block until fixes applied''\<rparr>),
      (''code_quality'',
       \<lparr>executed = True, overall_risk = ''Low'',
        findings =
          [\<lparr>severity = ''High'', category = ''complexity'', finding = ''Function too long'',
            location = ''src/app.js:10'', recommendation = ''Split the function''\<rparr>],
        review_recommendation = ''Proceed''\<rparr>)]"

text \<open>
  An initial packet, and the packets of the same run in Phase 2 and, with the gate
  skipped, in Phase 3.
\<close>

definition example_packet :: handoff_packet where
  "example_packet =
     initialize_packet ''a1b2c3d4-e5f6-4789-8abc-def123456789''
       ''add JWT authentication to the Express API'' ''2025-11-08T10:00:00Z''"

definition example_packet_phase_2 :: handoff_packet where
  "example_packet_phase_2 =
     example_packet\<lparr>phase :=
       \<lparr>current = 2, next_phase = Some 3, completed = [0, 1], remaining = [3, 4]\<rparr>\<rparr>"


text \<open>A configuration that is valid and draws both warnings.\<close>

definition two_warnings_doc :: json where
  "two_warnings_doc =
     JObj [(''version'', JStr ''2.0.1''),
           (''sme_agents'', JObj [(''enabled'', JBool True),
                                  (''security'', JObj [(''enabled'', JBool False)])]),
           (''logging'', JObj [(''enabled'', JBool True)])]"

text \<open>A configuration with values of the wrong type and a missing member.\<close>

definition mistyped_doc :: json where
  "mistyped_doc =
     JObj [(''version'', JNum 1),
           (''sme_agents'', JObj [(''enabled'', JStr ''true''),
                                  (''security'', JObj [(''auto_invoke_on_keywords'', JArr [JStr ''jwt'', JNum 7])])])]"

section \<open>Properties of the text primitives\<close>

lemma starts_with_prefix: "starts_with w s \<longleftrightarrow> prefix w s"
  by (induction w s rule: starts_with.induct) simp_all

lemma str_includes_sublist: "str_includes s w \<longleftrightarrow> sublist w s"
  by (induction s) (simp_all add: starts_with_prefix sublist_Cons_right)

lemma list_ex_includes: "list_ex (\<lambda>w. str_includes s w) ws \<longleftrightarrow> (\<exists>w\<in>set ws. sublist w s)"
  by (simp add: list_ex_iff str_includes_sublist)

lemma alt_at_iff:
  "alt_at a w s \<longleftrightarrow>
     (\<exists>post. s = w @ post \<and> word_boundary a (head_opt s) \<and>
        word_boundary (prev_char a w) (head_opt post))"
  unfolding alt_at_def starts_with_prefix prefix_def
  by (metis append_eq_conv_conj)

lemma prev_char_Cons: "prev_char a (c # xs) = prev_char (Some c) xs"
  by (simp add: prev_char_def)

lemma prev_char_Nil: "prev_char a [] = a"
  by (simp add: prev_char_def)

lemma here_iff:
  "list_ex (\<lambda>w. alt_at a w s) ws \<longleftrightarrow> (\<exists>w post. split_match ws a s [] w post)"
  unfolding list_ex_iff alt_at_iff split_match_def prev_char_Nil append_Nil
  by blast

lemma split_match_Cons:
  "split_match ws a (c # s) (x # pre) w post \<longleftrightarrow> x = c \<and> split_match ws (Some c) s pre w post"
  unfolding split_match_def prev_char_Cons append_Cons
  by auto

lemma split_match_Nil_text: "split_match ws a [] pre w post \<Longrightarrow> pre = []"
  by (simp add: split_match_def)

text \<open>
  The search finds a match exactly when the text splits around one of the words with a
  boundary on each side: where in the text the word stands plays no part.
\<close>

lemma re_search_split:
  "re_search ws a s \<longleftrightarrow> (\<exists>pre w post. split_match ws a s pre w post)"
proof (induction s arbitrary: a)
  case Nil
  show ?case
    unfolding re_search.simps here_iff
    using split_match_Nil_text by blast
next
  case (Cons c s)
  show ?case (is "?L \<longleftrightarrow> ?R")
  proof
    assume ?L
    then consider "list_ex (\<lambda>w. alt_at a w (c # s)) ws" | "re_search ws (Some c) s"
      by auto
    then show ?R
    proof cases
      case 1
      then show ?thesis unfolding here_iff by blast
    next
      case 2
      then obtain pre w post where "split_match ws (Some c) s pre w post"
        unfolding Cons.IH by blast
      then have "split_match ws a (c # s) (c # pre) w post"
        by (simp add: split_match_Cons)
      then show ?thesis by blast
    qed
  next
    assume ?R
    then obtain pre w post where r: "split_match ws a (c # s) pre w post"
      by blast
    show ?L
    proof (cases pre)
      case Nil
      with r have "list_ex (\<lambda>w. alt_at a w (c # s)) ws"
        unfolding here_iff by blast
      then show ?thesis by simp
    next
      case (Cons x pre')
      with r have "split_match ws (Some c) s pre' w post"
        by (simp add: split_match_Cons)
      then have "re_search ws (Some c) s"
        unfolding Cons.IH by blast
      then show ?thesis by simp
    qed
  qed
qed

lemma match_words_iff: "match_words ws s \<longleftrightarrow> occurs_as_word ws s"
  by (simp add: match_words_def occurs_as_word_def re_search_split)

text \<open>A lower-cased text holds no letter of \<open>A\<close>..\<open>Z\<close>, so the entity pattern finds nothing in it.\<close>

lemma toLowerChar_not_upper: "\<not> is_upper (toLowerChar c)"
  by (auto simp: toLowerChar_def is_upper_def upper_letters_def lower_letters_def)

lemma entity_search_lower: "\<not> entity_search a (map toLowerChar s)"
  by (induction s arbitrary: a) (simp_all add: entity_at_def toLowerChar_not_upper split: list.splits)

lemma match_entity_lower: "\<not> match_entity (toLowerCase t)"
  by (simp add: match_entity_def toLowerCase_def entity_search_lower)

section \<open>Properties of the task analyser\<close>

lemma complexity_analyze: "complexity (analyzeTask t) = complexity_of (toLowerCase t)"
  by (simp add: analyzeTask_def Let_def)

lemma risk_flags_analyze: "risk_flags (analyzeTask t) = risk_flags_of (toLowerCase t)"
  by (simp add: analyzeTask_def Let_def)

lemma clarity_analyze: "clarity_score (analyzeTask t) = clarity_of (toLowerCase t)"
  by (simp add: analyzeTask_def Let_def)

lemma recommended_analyze:
  "recommended_model (analyzeTask t) =
     recommend (complexity (analyzeTask t)) (risk_flags (analyzeTask t))"
  by (simp add: analyzeTask_def Let_def)

text \<open>
  C2, as amended. The task analysis has no failure mode: for every task text, whatever
  its length, the tool returns without error and its result carries the analysis of the
  text. The minimum length of ten characters stands in the tool's declared input schema
  only; the tool does not read it, so a shorter text is analysed like any other (the
  counterexample), where the claim has it rejected.
\<close>

theorem analyze_never_fails:
  "analyze_isError (analyzeTaskTool t) = False \<and>
   analyze_meta (analyzeTaskTool t) = Some (analyzeTask t) \<and>
   (\<exists>c d s f m n. analyzeTask t =
      \<lparr>complexity = c, domain = d, clarity_score = s, risk_flags = f,
       recommended_model = m, estimated_duration_minutes = n\<rparr> \<and> 0 \<le> s \<and> s \<le> 1)"
proof -
  have "0 \<le> clarity_of (toLowerCase t) \<and> clarity_of (toLowerCase t) \<le> 1"
    by (simp add: clarity_of_def Let_def)
  then show ?thesis
    by (simp add: analyzeTaskTool_def analyzeTask_def Let_def)
qed

theorem analyze_never_fails_witness:
  "analyze_task_minLength \<le> length ''fix the login bug'' \<and>
   analyzeTaskTool ''fix the login bug'' =
     \<lparr>analyze_isError = False,
      analyze_meta = Some \<lparr>complexity = LOW, domain = ''General'', clarity_score = binary64 (7 / 10),
        risk_flags = [], recommended_model = haiku, estimated_duration_minutes = 3\<rparr>\<rparr>"
proof -
  have a: "analyzeTask ''fix the login bug'' =
      \<lparr>complexity = LOW, domain = ''General'', clarity_score = binary64 (7 / 10),
        risk_flags = [], recommended_model = haiku, estimated_duration_minutes = 3\<rparr>"
    by code_simp
  have h: "analyze_task_minLength \<le> length ''fix the login bug''"
    by (simp add: analyze_task_minLength_def)
  have "analyzeTaskTool ''fix the login bug'' =
      \<lparr>analyze_isError = analyze_isError (analyzeTaskTool ''fix the login bug''),
       analyze_meta = analyze_meta (analyzeTaskTool ''fix the login bug'')\<rparr>"
    by simp
  with analyze_never_fails [of "''fix the login bug''"] a h show ?thesis
    by simp
qed

theorem analyze_short_text_counterexample:
  "length ''fix bug'' < analyze_task_minLength \<and>
   analyzeTaskTool ''fix bug'' =
     \<lparr>analyze_isError = False,
      analyze_meta = Some \<lparr>complexity = LOW, domain = ''General'', clarity_score = binary64 (7 / 10),
        risk_flags = [], recommended_model = haiku, estimated_duration_minutes = 3\<rparr>\<rparr>"
  by code_simp

text \<open>
  C3, as amended. The risk flags are the outcome of four independent tests, one per
  keyword set, listed in the order security, privacy, compliance, policy wherever the
  keywords stand in the text. The text "add JWT authentication with bcrypt" gets exactly
  the flag security, and "update privacy policy for GDPR" exactly the flag privacy: GDPR
  is a privacy keyword, and the text holds none of the compliance keywords.
\<close>

theorem risk_flag_detection:
  "risk_flags (analyzeTask t) =
     (if occurs_as_word [''auth'', ''password'', ''jwt'', ''oauth'', ''crypto'', ''encryption'', ''security'']
           (toLowerCase t) then [''security''] else []) @
     (if occurs_as_word [''gdpr'', ''ccpa'', ''privacy'', ''pii'', ''personal data'']
           (toLowerCase t) then [''privacy''] else []) @
     (if occurs_as_word [''license'', ''compliance'', ''legal'']
           (toLowerCase t) then [''compliance''] else []) @
     (if occurs_as_word [''user data'', ''sensitive'', ''confidential'']
           (toLowerCase t) then [''policy''] else [])
   \<and> risk_flags (analyzeTask ''add JWT authentication with bcrypt'') = [''security'']
   \<and> risk_flags (analyzeTask ''update privacy policy for GDPR'') = [''privacy'']"
proof -
  have general: "risk_flags (analyzeTask t) =
     (if occurs_as_word security_words (toLowerCase t) then [''security''] else []) @
     (if occurs_as_word privacy_words (toLowerCase t) then [''privacy''] else []) @
     (if occurs_as_word compliance_words (toLowerCase t) then [''compliance''] else []) @
     (if occurs_as_word policy_words (toLowerCase t) then [''policy''] else [])"
    by (simp add: risk_flags_analyze risk_flags_of_def match_words_iff)
  have jwt: "risk_flags (analyzeTask ''add JWT authentication with bcrypt'') = [''security'']"
    by code_simp
  have gdpr: "risk_flags (analyzeTask ''update privacy policy for GDPR'') = [''privacy'']"
    by code_simp
  from general jwt gdpr show ?thesis
    unfolding security_words_def privacy_words_def compliance_words_def policy_words_def
    by (intro conjI)
qed

theorem risk_flag_detection_witness:
  "risk_flags (analyzeTask ''GDPR rules for password storage'') = [''security'', ''privacy'']"
proof -
  let ?s = "toLowerCase ''GDPR rules for password storage''"
  have a: "match_words [''auth'', ''password'', ''jwt'', ''oauth'', ''crypto'', ''encryption'', ''security''] ?s"
    by code_simp
  have b: "match_words [''gdpr'', ''ccpa'', ''privacy'', ''pii'', ''personal data''] ?s"
    by code_simp
  have c: "\<not> match_words [''license'', ''compliance'', ''legal''] ?s"
    by code_simp
  have d: "\<not> match_words [''user data'', ''sensitive'', ''confidential''] ?s"
    by code_simp
  from a b c d show ?thesis
    using risk_flag_detection [of "''GDPR rules for password storage''"]
    by (simp only: match_words_iff if_True if_False append_Nil append_Cons append_Nil2)
qed

theorem risk_flag_gdpr_counterexample:
  "''compliance'' \<notin> set (risk_flags (analyzeTask ''update privacy policy for GDPR''))"
  by code_simp

text \<open>
  C4, as amended. The complexity is HIGH when the lower-cased text contains a
  high-complexity keyword, otherwise LOW when it contains one of fix, update, change,
  modify, small, simple, otherwise MEDIUM; so a text containing "refactor the entire auth
  module" in any letter case is HIGH, whatever else it contains.
\<close>

theorem complexity_classification:
  "complexity (analyzeTask t) =
     (if \<exists>w \<in> set [''refactor'', ''architecture'', ''migrate'', ''complex'', ''multiple'', ''entire'', ''redesign''].
           sublist w (toLowerCase t) then HIGH
      else if \<exists>w \<in> set [''fix'', ''update'', ''change'', ''modify'', ''small'', ''simple''].
           sublist w (toLowerCase t) then LOW
      else MEDIUM)
   \<and> (sublist ''refactor the entire auth module'' (toLowerCase t) \<longrightarrow>
        complexity (analyzeTask t) = HIGH)"
proof -
  have main: "complexity (analyzeTask t) =
     (if \<exists>w \<in> set complexityIndicators_high. sublist w (toLowerCase t) then HIGH
      else if \<exists>w \<in> set complexityIndicators_low. sublist w (toLowerCase t) then LOW
      else MEDIUM)"
    by (simp only: complexity_analyze complexity_of_def list_ex_includes)
  have "sublist ''refactor'' ''refactor the entire auth module''"
    by (rule prefix_imp_sublist) simp
  then have "sublist ''refactor the entire auth module'' (toLowerCase t) \<Longrightarrow>
      sublist ''refactor'' (toLowerCase t)"
    using sublist_order.order_trans by blast
  then have "sublist ''refactor the entire auth module'' (toLowerCase t) \<longrightarrow>
      complexity (analyzeTask t) = HIGH"
    using main by (auto simp: complexityIndicators_high_def)
  with main show ?thesis
    unfolding complexityIndicators_high_def complexityIndicators_low_def by blast
qed

theorem complexity_classification_witness:
  "complexity (analyzeTask ''Please fix and Refactor the Entire auth module'') = HIGH"
proof -
  have "toLowerCase ''Please fix and Refactor the Entire auth module''
      = ''please fix and '' @ ''refactor the entire auth module'' @ []"
    by code_simp
  then have "sublist ''refactor the entire auth module''
      (toLowerCase ''Please fix and Refactor the Entire auth module'')"
    unfolding sublist_def by blast
  then show ?thesis
    using complexity_classification [of "''Please fix and Refactor the Entire auth module''"]
    by blast
qed

theorem complexity_low_set_counterexample:
  "\<not> list_ex (str_includes (toLowerCase ''change the button color'')) complexityIndicators_high \<and>
   \<not> list_ex (str_includes (toLowerCase ''change the button color''))
       [''fix'', ''small'', ''simple'', ''modify''] \<and>
   complexity (analyzeTask ''change the button color'') = LOW"
  by code_simp

text \<open>
  C5, where the code departs from the claim. The pattern for a capitalised identifier is
  applied to the lower-cased text, which it never matches, so its 0.1 is never added.
  The text "Add UserService class" holds such an identifier and an action verb, no vague
  term and no qualifier: its score is 0.7 (0.5 + 0.2), below the 0.5 + 0.2 + 0.1 of the
  claim.
\<close>

theorem clarity_entity_bonus_never_added:
  "\<not> match_entity (toLowerCase t)
   \<and> match_entity ''Add UserService class''
   \<and> clarity_score (analyzeTask ''Add UserService class'') = binary64 (7 / 10)
   \<and> clarity_score (analyzeTask ''Add UserService class'') <
       js_add (js_add (binary64 (5 / 10)) (binary64 (2 / 10))) (binary64 (1 / 10))"
proof -
  have a: "match_entity ''Add UserService class''"
    by code_simp
  have b: "clarity_score (analyzeTask ''Add UserService class'') = binary64 (7 / 10)"
    by code_simp
  have c: "binary64 (7 / 10) <
      js_add (js_add (binary64 (5 / 10)) (binary64 (2 / 10))) (binary64 (1 / 10))"
    by code_simp
  from match_entity_lower [of t] a b c show ?thesis
    by simp
qed

theorem clarity_entity_bonus_never_added_witness:
  "\<not> match_entity (toLowerCase ''Add UserService class'') \<and>
   clarity_score (analyzeTask ''Add UserService class'') < 8 / 10"
proof -
  have "binary64 (7 / 10) < 8 / 10"
    by code_simp
  with clarity_entity_bonus_never_added [of "''Add UserService class''"] show ?thesis
    by simp
qed

text \<open>
  C6. The recommended model is opus when the complexity is HIGH or a risk flag is
  present, otherwise sonnet when the complexity is MEDIUM, otherwise haiku.
\<close>

theorem recommended_model_rule:
  "recommended_model (analyzeTask t) =
     (if complexity (analyzeTask t) = HIGH \<or> risk_flags (analyzeTask t) \<noteq> [] then opus
      else if complexity (analyzeTask t) = MEDIUM then sonnet
      else haiku)"
  by (simp add: recommended_analyze recommend_def)

theorem recommended_model_rule_witness:
  "recommended_model (analyzeTask ''fix the login password check'') = opus \<and>
   complexity (analyzeTask ''fix the login password check'') = LOW"
proof -
  have c: "complexity (analyzeTask ''fix the login password check'') = LOW"
    by code_simp
  have r: "risk_flags (analyzeTask ''fix the login password check'') = [''security'']"
    by code_simp
  show ?thesis
    using recommended_model_rule [of "''fix the login password check''"] c r by simp
qed

section \<open>Properties of the quality gate\<close>

lemma findings_loop_filter:
  "findings_loop n fs (c, h) =
     (c @ map (Pair n) (filter (\<lambda>f. severity f = ''Critical'') fs),
      h @ map (Pair n) (filter (\<lambda>f. severity f = ''High'') fs))"
  by (induction fs arbitrary: c h) auto

lemma filter_tagged:
  "filter (\<lambda>(n, f). P f) (map (Pair n) fs) = map (Pair n) (filter P fs)"
  by (induction fs) auto

lemma reviews_loop_filter:
  "reviews_loop rs (c, h) =
     (c @ filter (\<lambda>(n, f). severity f = ''Critical'') (all_tagged rs),
      h @ filter (\<lambda>(n, f). severity f = ''High'') (all_tagged rs))"
proof (induction rs arbitrary: c h)
  case Nil
  show ?case by (simp add: all_tagged_def)
next
  case (Cons r rs)
  obtain n rv where r: "r = (n, rv)" by (cases r)
  show ?case
    by (simp add: r findings_loop_filter Cons.IH all_tagged_def filter_tagged)
qed

lemma set_all_tagged:
  "set (all_tagged rs) = {(n, f). \<exists>rv. (n, rv) \<in> set rs \<and> f \<in> set (findings rv)}"
  by (auto simp: all_tagged_def)

lemma filter_tagged_nonempty:
  "filter (\<lambda>(n, f). P f) (all_tagged rs) \<noteq> [] \<longleftrightarrow>
     (\<exists>(n, rv) \<in> set rs. \<exists>f \<in> set (findings rv). P f)"
  unfolding filter_empty_conv set_all_tagged by fastforce

lemma decide_eq:
  "decide rs =
     (let c = filter (\<lambda>(n, f). severity f = ''Critical'') (all_tagged rs);
          h = filter (\<lambda>(n, f). severity f = ''High'') (all_tagged rs)
      in if c \<noteq> [] \<or> h \<noteq> [] then Pause c h else Proceed)"
  by (simp add: decide_def reviews_loop_filter Let_def)

text \<open>
  C1. The gate pauses exactly when some finding of some review has severity Critical or
  High; it proceeds on no reviews and on reviews whose findings are all Medium, Low or
  Info; and a pause carries all Critical findings and all High findings, each with the
  name of its SME, in the order the reviews and their findings are read.
\<close>

theorem gate_decision:
  "(decide reviews \<noteq> Proceed \<longleftrightarrow>
      (\<exists>(sme_name, review) \<in> set reviews. \<exists>f \<in> set (findings review).
         severity f = ''Critical'' \<or> severity f = ''High''))
   \<and> decide [] = Proceed
   \<and> ((\<forall>(sme_name, review) \<in> set reviews. \<forall>f \<in> set (findings review).
          severity f \<in> {''Medium'', ''Low'', ''Info''}) \<longrightarrow> decide reviews = Proceed)
   \<and> (\<forall>critical high. decide reviews = Pause critical high \<longrightarrow>
          critical = filter (\<lambda>(sme_name, f). severity f = ''Critical'') (all_tagged reviews) \<and>
          high = filter (\<lambda>(sme_name, f). severity f = ''High'') (all_tagged reviews))"
proof -
  let ?c = "filter (\<lambda>(n, f). severity f = ''Critical'') (all_tagged reviews)"
  let ?h = "filter (\<lambda>(n, f). severity f = ''High'') (all_tagged reviews)"
  have ne: "(?c \<noteq> [] \<or> ?h \<noteq> []) \<longleftrightarrow>
      (\<exists>(sme_name, review) \<in> set reviews. \<exists>f \<in> set (findings review).
         severity f = ''Critical'' \<or> severity f = ''High'')"
    unfolding filter_tagged_nonempty by blast
  have a: "decide reviews \<noteq> Proceed \<longleftrightarrow>
      (\<exists>(sme_name, review) \<in> set reviews. \<exists>f \<in> set (findings review).
         severity f = ''Critical'' \<or> severity f = ''High'')"
    unfolding ne [symmetric] by (simp add: decide_eq Let_def)
  have b: "decide [] = Proceed"
    by (simp add: decide_def)
  have c: "(\<forall>(sme_name, review) \<in> set reviews. \<forall>f \<in> set (findings review).
          severity f \<in> {''Medium'', ''Low'', ''Info''}) \<longrightarrow> decide reviews = Proceed"
  proof
    assume h: "\<forall>(sme_name, review) \<in> set reviews. \<forall>f \<in> set (findings review).
          severity f \<in> {''Medium'', ''Low'', ''Info''}"
    have "\<not> (\<exists>(sme_name, review) \<in> set reviews. \<exists>f \<in> set (findings review).
         severity f = ''Critical'' \<or> severity f = ''High'')"
      using h by fastforce
    with a show "decide reviews = Proceed" by blast
  qed
  have d: "\<forall>critical high. decide reviews = Pause critical high \<longrightarrow>
          critical = ?c \<and> high = ?h"
    by (simp add: decide_eq Let_def)
  from a b c d show ?thesis by blast
qed

theorem gate_decision_witness:
  "decide example_reviews =
     Pause
       [(''security'',
         \<lparr>severity = ''Critical'', category = ''A02'', finding = ''JWT secret hardcoded in source'',
          location = ''src/middleware/auth.js:5'', recommendation = ''Move to environment variable''\<rparr>)]
       [(''security'',
         \<lparr>severity = ''High'', category = ''A07'', finding = ''No JWT token expiration'',
          location = ''src/middleware/auth.js:12'', recommendation = ''Set expiresIn''\<rparr>),
        (''code_quality'',
         \<lparr>severity = ''High'', category = ''complexity'', finding = ''Function too long'',
          location = ''src/app.js:10'', recommendation = ''Split the function''\<rparr>)]"
proof -
  have ex: "\<exists>(sme_name, review) \<in> set example_reviews. \<exists>f \<in> set (findings review).
      severity f = ''Critical'' \<or> severity f = ''High''"
    by (simp add: example_reviews_def)
  with gate_decision [of example_reviews] have "decide example_reviews \<noteq> Proceed"
    by blast
  then obtain c h where p: "decide example_reviews = Pause c h"
    by (cases "decide example_reviews") auto
  with gate_decision [of example_reviews] have
    "c = filter (\<lambda>(sme_name, f). severity f = ''Critical'') (all_tagged example_reviews)"
    "h = filter (\<lambda>(sme_name, f). severity f = ''High'') (all_tagged example_reviews)"
    by blast+
  then show ?thesis
    unfolding p by (simp add: example_reviews_def all_tagged_def)
qed

section \<open>Properties of the phase record\<close>

lemma init_phase_facts:
  "phase (initialize_packet u r ts) =
     \<lparr>current = 0, next_phase = Some 1, completed = [], remaining = [1, 2, 3, 4]\<rparr>"
  by (simp add: initialize_packet_def)

lemma gate_phase_facts:
  "phase (update_packet_phase_2_5 rs n pk) =
     \<lparr>current = 5 / 2, next_phase = Some 3, completed = [0, 1, 2], remaining = [3, 4]\<rparr>"
  by (simp add: update_packet_phase_2_5_def)

text \<open>
  The step agrees with the packets the repository shows: it takes the initial packet to
  the phase record of the README's sample, and the Phase 2.5 update writes what a step
  from Phase 2 into the gate gives (Phase 2 completed, the rest unchanged).
\<close>

lemma advance_init_is_readme:
  "advance_phase (phase (initialize_packet u r ts)) = Some readme_phase_1"
  by (simp add: init_phase_facts advance_phase_def readme_phase_1_def)

lemma gate_update_is_entry:
  "phase (update_packet_phase_2_5 rs n example_packet_phase_2) =
     (phase example_packet_phase_2)
       \<lparr>current := 5 / 2,
        completed := completed (phase example_packet_phase_2) @ [current (phase example_packet_phase_2)]\<rparr>"
  by (simp add: gate_phase_facts example_packet_phase_2_def)














section \<open>Properties of the trace identifier\<close>

lemma item_matches_simps:
  "item_matches Hex c = is_hex c"
  "item_matches Dash c = (c = CHR ''-'')"
  "item_matches Four c = (c = CHR ''4'')"
  "item_matches Variant c = (c \<in> set ''89abAB'')"
  by (simp_all add: item_matches_def)

lemma list_all2_replicate_Hex:
  "list_all2 item_matches (replicate n Hex) us \<longleftrightarrow> length us = n \<and> list_all is_hex us"
proof (induction n arbitrary: us)
  case 0
  show ?case by auto
next
  case (Suc n)
  show ?case
    by (cases us) (auto simp: Suc.IH item_matches_simps)
qed

lemma hex_prefixE:
  assumes "list_all2 item_matches (replicate n Hex @ ps) s"
  obtains a r where "s = a @ r" "length a = n" "list_all is_hex a" "list_all2 item_matches ps r"
  using assms unfolding list_all2_append1 list_all2_replicate_Hex by blast

lemma item_ConsE:
  assumes "list_all2 item_matches (p # ps) s"
  obtains c r where "s = c # r" "item_matches p c" "list_all2 item_matches ps r"
  using assms unfolding list_all2_Cons1 by blast

lemma isValidTraceId_format: "isValidTraceId t \<longleftrightarrow> uuid_v4_format t"
proof
  assume "isValidTraceId t"
  then have 0: "list_all2 item_matches
      (replicate 8 Hex @ Dash # replicate 4 Hex @ Dash # Four # replicate 3 Hex @
       Dash # Variant # replicate 3 Hex @ Dash # replicate 12 Hex) t"
    unfolding isValidTraceId_def uuidV4Regex_def by simp
  from 0 obtain a r1 where 1: "t = a @ r1" "length a = 8" "list_all is_hex a"
      "list_all2 item_matches (Dash # replicate 4 Hex @ Dash # Four # replicate 3 Hex @
       Dash # Variant # replicate 3 Hex @ Dash # replicate 12 Hex) r1"
    by (rule hex_prefixE)
  from 1(4) obtain c1 r1' where p1: "r1 = c1 # r1'" "item_matches Dash c1"
      "list_all2 item_matches (replicate 4 Hex @ Dash # Four # replicate 3 Hex @
       Dash # Variant # replicate 3 Hex @ Dash # replicate 12 Hex) r1'"
    by (rule item_ConsE)
  from p1(3) obtain b r2 where 2: "r1' = b @ r2" "length b = 4" "list_all is_hex b"
      "list_all2 item_matches (Dash # Four # replicate 3 Hex @
       Dash # Variant # replicate 3 Hex @ Dash # replicate 12 Hex) r2"
    by (rule hex_prefixE)
  from 2(4) obtain c2 r2' where p2: "r2 = c2 # r2'" "item_matches Dash c2"
      "list_all2 item_matches (Four # replicate 3 Hex @
       Dash # Variant # replicate 3 Hex @ Dash # replicate 12 Hex) r2'"
    by (rule item_ConsE)
  from p2(3) obtain c3 r2'' where q2: "r2' = c3 # r2''" "item_matches Four c3"
      "list_all2 item_matches (replicate 3 Hex @
       Dash # Variant # replicate 3 Hex @ Dash # replicate 12 Hex) r2''"
    by (rule item_ConsE)
  from q2(3) obtain c r3 where 3: "r2'' = c @ r3" "length c = 3" "list_all is_hex c"
      "list_all2 item_matches (Dash # Variant # replicate 3 Hex @ Dash # replicate 12 Hex) r3"
    by (rule hex_prefixE)
  from 3(4) obtain c4 r3' where p3: "r3 = c4 # r3'" "item_matches Dash c4"
      "list_all2 item_matches (Variant # replicate 3 Hex @ Dash # replicate 12 Hex) r3'"
    by (rule item_ConsE)
  from p3(3) obtain v r3'' where q3: "r3' = v # r3''" "item_matches Variant v"
      "list_all2 item_matches (replicate 3 Hex @ Dash # replicate 12 Hex) r3''"
    by (rule item_ConsE)
  from q3(3) obtain d r4 where 4: "r3'' = d @ r4" "length d = 3" "list_all is_hex d"
      "list_all2 item_matches (Dash # replicate 12 Hex) r4"
    by (rule hex_prefixE)
  from 4(4) obtain c5 e where 5: "r4 = c5 # e" "item_matches Dash c5"
      "list_all2 item_matches (replicate 12 Hex) e"
    by (rule item_ConsE)
  have e: "length e = 12" "list_all is_hex e"
    using 5(3) by (simp_all add: list_all2_replicate_Hex)
  have cs: "c1 = CHR ''-''" "c2 = CHR ''-''" "c3 = CHR ''4''" "c4 = CHR ''-''" "c5 = CHR ''-''"
      "v \<in> set ''89abAB''"
    using p1(2) p2(2) q2(2) p3(2) q3(2) 5(2) by (simp_all add: item_matches_simps)
  have "t = a @ ''-'' @ b @ ''-4'' @ c @ ''-'' @ [v] @ d @ ''-'' @ e"
    by (simp add: 1(1) p1(1) 2(1) p2(1) q2(1) 3(1) p3(1) q3(1) 4(1) 5(1) cs)
  moreover have "list_all is_hex (a @ b @ c @ d @ e)"
    using 1(3) 2(3) 3(3) 4(3) e(2) by simp
  ultimately show "uuid_v4_format t"
    unfolding uuid_v4_format_def
    using 1(2) 2(2) 3(2) 4(2) e(1) cs(6) by blast
next
  assume "uuid_v4_format t"
  then obtain a b c v d e where
    t: "t = a @ ''-'' @ b @ ''-4'' @ c @ ''-'' @ [v] @ d @ ''-'' @ e"
    and l: "length a = 8" "length b = 4" "length c = 3" "length d = 3" "length e = 12"
    and hx: "list_all is_hex (a @ b @ c @ d @ e)"
    and v: "v \<in> set ''89abAB''"
    unfolding uuid_v4_format_def by blast
  have h: "list_all is_hex a" "list_all is_hex b" "list_all is_hex c" "list_all is_hex d" "list_all is_hex e"
    using hx by simp_all
  have A: "list_all2 item_matches (replicate 8 Hex) a"
    and B: "list_all2 item_matches (replicate 4 Hex) b"
    and C: "list_all2 item_matches (replicate 3 Hex) c"
    and D: "list_all2 item_matches (replicate 3 Hex) d"
    and E: "list_all2 item_matches (replicate 12 Hex) e"
    using l h by (simp_all add: list_all2_replicate_Hex)
  have dash: "list_all2 item_matches [Dash] ''-''"
    by (simp add: item_matches_simps)
  have dash4: "list_all2 item_matches [Dash, Four] ''-4''"
    by (simp add: item_matches_simps)
  have dashv: "list_all2 item_matches [Dash, Variant] (''-'' @ [v])"
    using v by (simp add: item_matches_simps)
  have "list_all2 item_matches uuidV4Regex (a @ ''-'' @ b @ ''-4'' @ c @ (''-'' @ [v]) @ d @ ''-'' @ e)"
    unfolding uuidV4Regex_def
    by (intro list_all2_appendI A B C D E dash dash4 dashv)
  then show "isValidTraceId t"
    unfolding isValidTraceId_def t by simp
qed

lemma not_valid_Nil: "\<not> isValidTraceId []"
  by (simp add: isValidTraceId_def uuidV4Regex_def)

text \<open>
  C10. The trace identifier in the result's \<open>_meta\<close> is the supplied one, unchanged, when
  one is supplied and has the UUID version 4 format, and the freshly generated one
  otherwise; the result is never an error; and when the generated identifier has the
  format, so has the one returned.
\<close>

theorem trace_id_used_or_replaced:
  "meta_trace_id (executeOriTool fresh args) =
     (case supplied_trace_id args of
        Some t \<Rightarrow> if uuid_v4_format t then t else fresh
      | None \<Rightarrow> fresh)
   \<and> execute_isError (executeOriTool fresh args) = False
   \<and> (uuid_v4_format fresh \<longrightarrow> uuid_v4_format (meta_trace_id (executeOriTool fresh args)))"
proof -
  have a: "meta_trace_id (executeOriTool fresh args) =
     (case supplied_trace_id args of
        Some t \<Rightarrow> if uuid_v4_format t then t else fresh
      | None \<Rightarrow> fresh)"
    using not_valid_Nil
    by (auto simp: executeOriTool_def choose_trace_id_def supplied_trace_id_def Let_def
        isValidTraceId_format [symmetric] split: option.splits)
  have b: "execute_isError (executeOriTool fresh args) = False"
    by (simp add: executeOriTool_def Let_def)
  have c: "uuid_v4_format fresh \<longrightarrow> uuid_v4_format (meta_trace_id (executeOriTool fresh args))"
    unfolding a by (simp split: option.splits)
  from a b c show ?thesis by blast
qed

theorem trace_id_used_or_replaced_witness:
  "meta_trace_id (executeOriTool ''0f8fad5b-d9cb-469f-a165-70867728950e''
      \<lparr>task = ''add JWT authentication'', task_context = None,
       config = Some \<lparr>sme_enabled = None, security_sme = None, logging = None,
                      trace_id = Some ''A1B2C3D4-E5F6-4789-8ABC-DEF123456789''\<rparr>\<rparr>)
     = ''A1B2C3D4-E5F6-4789-8ABC-DEF123456789'' \<and>
   meta_trace_id (executeOriTool ''0f8fad5b-d9cb-469f-a165-70867728950e''
      \<lparr>task = ''add JWT authentication'', task_context = None,
       config = Some \<lparr>sme_enabled = None, security_sme = None, logging = None,
                      trace_id = Some ''not-a-uuid''\<rparr>\<rparr>)
     = ''0f8fad5b-d9cb-469f-a165-70867728950e'' \<and>
   uuid_v4_format ''0f8fad5b-d9cb-469f-a165-70867728950e''"
proof -
  have v1: "uuid_v4_format ''A1B2C3D4-E5F6-4789-8ABC-DEF123456789''"
    unfolding isValidTraceId_format [symmetric] by code_simp
  have v2: "\<not> uuid_v4_format ''not-a-uuid''"
    unfolding isValidTraceId_format [symmetric] by code_simp
  have v3: "uuid_v4_format ''0f8fad5b-d9cb-469f-a165-70867728950e''"
    unfolding isValidTraceId_format [symmetric] by code_simp
  show ?thesis
    using
      trace_id_used_or_replaced [of "''0f8fad5b-d9cb-469f-a165-70867728950e''"
        "\<lparr>task = ''add JWT authentication'', task_context = None,
          config = Some \<lparr>sme_enabled = None, security_sme = None, logging = None,
                      trace_id = Some ''A1B2C3D4-E5F6-4789-8ABC-DEF123456789''\<rparr>\<rparr>"]
      trace_id_used_or_replaced [of "''0f8fad5b-d9cb-469f-a165-70867728950e''"
        "\<lparr>task = ''add JWT authentication'', task_context = None,
          config = Some \<lparr>sme_enabled = None, security_sme = None, logging = None,
                      trace_id = Some ''not-a-uuid''\<rparr>\<rparr>"]
      v1 v2 v3
    by (simp add: supplied_trace_id_def)
qed

section \<open>Properties of the configuration validator\<close>

lemma invalid_type_nonempty: "invalid_type p e v \<noteq> []"
  by (simp add: invalid_type_def)

lemma concat_map_empty: "concat (map f xs) = [] \<longleftrightarrow> (\<forall>x\<in>set xs. f x = [])"
  by (induction xs) auto

lemma snd_enumerate: "snd ` set (enumerate n xs) = set xs"
  by (metis map_snd_enumerate set_map)

lemma issues_conforms:
  "(zod_issues s p v = [] \<longleftrightarrow> conforms s v)"
  "(shape_issues sh p kvs = [] \<longleftrightarrow> shape_conforms sh kvs)"
proof (induction s p v and sh p kvs rule: zod_issues_shape_issues.induct)
  case (1 p v)
  then show ?case by (simp add: invalid_type_nonempty split: option.splits json.splits)
next
  case (2 r p v)
  then show ?case by (simp add: invalid_type_nonempty split: option.splits json.splits)
next
  case (3 p v)
  then show ?case by (simp add: invalid_type_nonempty split: option.splits json.splits)
next
  case (4 p v)
  then show ?case by (simp add: invalid_type_nonempty split: option.splits json.splits)
next
  case (5 e p v)
  show ?case
  proof (cases v)
    case None
    then show ?thesis by (simp add: invalid_type_nonempty)
  next
    case (Some j)
    show ?thesis
    proof (cases j)
      case (JArr xs)
      have "(\<forall>ix\<in>set (enumerate 0 xs). zod_issues e (p @ [Index (fst ix)]) (Some (snd ix)) = [])
          \<longleftrightarrow> (\<forall>ix\<in>set (enumerate 0 xs). conforms e (Some (snd ix)))"
        using 5 [OF Some JArr] by (auto simp: Some JArr)
      also have "\<dots> \<longleftrightarrow> (\<forall>x\<in>snd ` set (enumerate 0 xs). conforms e (Some x))"
        by blast
      also have "\<dots> \<longleftrightarrow> (\<forall>x\<in>set xs. conforms e (Some x))"
        unfolding snd_enumerate ..
      finally show ?thesis
        by (simp add: Some JArr concat_map_empty list_all_iff case_prod_beta)
    qed (simp_all add: Some invalid_type_nonempty)
  qed
next
  case (6 e p v)
  show ?case
  proof (cases v)
    case None
    then show ?thesis by (simp add: invalid_type_nonempty)
  next
    case (Some j)
    show ?thesis
    proof (cases j)
      case (JObj kvs)
      have "(\<forall>kx\<in>set kvs. zod_issues e (p @ [Key (fst kx)]) (Some (snd kx)) = [])
          \<longleftrightarrow> (\<forall>kx\<in>set kvs. conforms e (Some (snd kx)))"
        using 6 [OF Some JObj] by (auto simp: Some JObj)
      then show ?thesis
        by (simp add: Some JObj concat_map_empty list_all_iff case_prod_beta)
    qed (simp_all add: Some invalid_type_nonempty)
  qed
next
  case (7 shape p v)
  then show ?case by (simp add: invalid_type_nonempty split: option.splits json.splits)
next
  case (8 e p v)
  then show ?case by (simp split: option.splits)
next
  case (9 p kvs)
  then show ?case by simp
next
  case (10 k e rest p kvs)
  then show ?case by simp
qed

lemma validate_document_valid:
  "conforms OriConfigSchema (Some doc) \<Longrightarrow>
     validate_document doc =
       \<lparr>config_isError = False, config_meta = Some (MetaValid (config_warnings doc))\<rparr>"
  by (simp add: validate_document_def issues_conforms)

lemma validate_document_invalid:
  "\<not> conforms OriConfigSchema (Some doc) \<Longrightarrow>
     validate_document doc =
       \<lparr>config_isError = True,
        config_meta = Some (MetaInvalid
          (map (\<lambda>(p, msg). \<lparr>path = join_dot (map path_elem_text p), message = msg\<rparr>)
             (zod_issues OriConfigSchema [] (Some doc))))\<rparr>"
  by (simp add: validate_document_def issues_conforms)

text \<open>
  C7. The document with version 1.2.0 and \<open>sme_agents.enabled\<close> true, with no SME of its
  own enabled, is valid with exactly one warning. For every document the \<open>valid\<close> flag is
  decided by the schema alone: a conforming document is valid and carries its warnings,
  whatever they are.
\<close>

theorem warnings_keep_valid:
  "validate_document
     (JObj [(''version'', JStr ''1.2.0''), (''sme_agents'', JObj [(''enabled'', JBool True)])]) =
     \<lparr>config_isError = False,
      config_meta = Some (MetaValid
        [''sme_agents.enabled is true but no specific SME agents are enabled''])\<rparr>
   \<and> (conforms OriConfigSchema (Some doc) \<longrightarrow>
        config_meta (validate_document doc) = Some (MetaValid (config_warnings doc)) \<and>
        valid (MetaValid (config_warnings doc)))
   \<and> (\<exists>m. config_meta (validate_document doc) = Some m \<and>
        valid m = conforms OriConfigSchema (Some doc))"
proof -
  have a: "validate_document
     (JObj [(''version'', JStr ''1.2.0''), (''sme_agents'', JObj [(''enabled'', JBool True)])]) =
     \<lparr>config_isError = False,
      config_meta = Some (MetaValid
        [''sme_agents.enabled is true but no specific SME agents are enabled''])\<rparr>"
    by code_simp
  have b: "conforms OriConfigSchema (Some doc) \<longrightarrow>
        config_meta (validate_document doc) = Some (MetaValid (config_warnings doc)) \<and>
        valid (MetaValid (config_warnings doc))"
    by (simp add: validate_document_valid valid_def)
  have c: "\<exists>m. config_meta (validate_document doc) = Some m \<and>
        valid m = conforms OriConfigSchema (Some doc)"
    by (cases "conforms OriConfigSchema (Some doc)")
      (simp_all add: validate_document_valid validate_document_invalid valid_def)
  from a b c show ?thesis by blast
qed

theorem warnings_keep_valid_witness:
  "config_meta (validate_document two_warnings_doc) =
     Some (MetaValid
       [''sme_agents.enabled is true but no specific SME agents are enabled'',
        ''Logging enabled but log_directory not specified (will use default)''])
   \<and> valid (MetaValid
       [''sme_agents.enabled is true but no specific SME agents are enabled'',
        ''Logging enabled but log_directory not specified (will use default)''])"
proof -
  have conf: "conforms OriConfigSchema (Some two_warnings_doc)"
    by code_simp
  have ws: "config_warnings two_warnings_doc =
       [''sme_agents.enabled is true but no specific SME agents are enabled'',
        ''Logging enabled but log_directory not specified (will use default)'']"
    by code_simp
  from warnings_keep_valid [of two_warnings_doc] conf show ?thesis
    unfolding ws by blast
qed

text \<open>
  C8. A document that does not conform to the schema (a value of the wrong type, a
  required member missing, a version of the wrong form) is reported as an error with
  \<open>valid\<close> false and a non-empty list of errors, one per issue of the schema check, each
  with the dotted path and the message; no value is converted to make it fit.
\<close>

theorem structural_failure_reported:
  "\<not> conforms OriConfigSchema (Some doc) \<Longrightarrow>
     config_isError (validate_document doc) \<and>
     (\<exists>es. config_meta (validate_document doc) = Some (MetaInvalid es) \<and>
        es \<noteq> [] \<and> \<not> valid (MetaInvalid es) \<and>
        es = map (\<lambda>(p, msg). \<lparr>path = join_dot (map path_elem_text p), message = msg\<rparr>)
               (zod_issues OriConfigSchema [] (Some doc)))"
  by (simp add: validate_document_invalid valid_def issues_conforms)

theorem structural_failure_reported_witness:
  "\<not> conforms OriConfigSchema (Some mistyped_doc) \<and>
   config_isError (validate_document mistyped_doc) \<and>
   config_meta (validate_document mistyped_doc) =
     Some (MetaInvalid
       [\<lparr>path = ''version'', message = ''Expected string, received number''\<rparr>,
        \<lparr>path = ''sme_agents.enabled'', message = ''Expected boolean, received string''\<rparr>,
        \<lparr>path = ''sme_agents.security.enabled'', message = ''Required''\<rparr>,
        \<lparr>path = ''sme_agents.security.auto_invoke_on_keywords.1'',
         message = ''Expected string, received number''\<rparr>])"
proof -
  have nc: "\<not> conforms OriConfigSchema (Some mistyped_doc)"
    by code_simp
  have iss: "map (\<lambda>(p, msg). \<lparr>path = join_dot (map path_elem_text p), message = msg\<rparr>)
               (zod_issues OriConfigSchema [] (Some mistyped_doc)) =
       [\<lparr>path = ''version'', message = ''Expected string, received number''\<rparr>,
        \<lparr>path = ''sme_agents.enabled'', message = ''Expected boolean, received string''\<rparr>,
        \<lparr>path = ''sme_agents.security.enabled'', message = ''Required''\<rparr>,
        \<lparr>path = ''sme_agents.security.auto_invoke_on_keywords.1'',
         message = ''Expected string, received number''\<rparr>]"
    by code_simp
  from structural_failure_reported [OF nc] nc show ?thesis
    unfolding iss by auto
qed

end
